theory Spec2Isabelle
  imports Main
begin

section \<open>Go values used by the logger\<close>

text \<open>
  A Go \<open>error\<close> is modelled by the text that \<open>err.Error()\<close> returns; a nil error is
  \<open>None\<close> of \<open>go_error option\<close>, and a call returning \<open>(x, err)\<close> is a sum with the error
  on the left.
\<close>

datatype go_error = GoError (Error_msg: string)

text \<open>
  A value of type \<open>interface{}\<close>. A Go map has neither order nor duplicate keys, so it is
  a partial function; the outer \<open>option\<close> separates the nil map (\<open>None\<close>) from an empty
  one. \<open>VOpaque\<close> stands for the values that have no JSON form (channels, functions, ...).
\<close>

datatype go_value =
    VNil
  | VBool bool
  | VInt int
  | VString string
  | VSlice "go_value list"
  | VMap "(string \<Rightarrow> go_value option) option"
  | VOpaque nat

type_synonym go_map = "(string \<Rightarrow> go_value option) option"

text \<open>\<open>type LogMessage struct\<close>, main.go lines 13-18.\<close>

record LogMessage =
  Timestamp :: string
  Level :: string
  MessageTemplate :: string
  Fields :: go_map

text \<open>
  A buffered channel: the queued elements, oldest first, and the capacity given to
  \<open>make\<close>.
\<close>

record 'a chan =
  buf :: "'a list"
  cap :: nat

text \<open>\<open>type SEQLogger struct\<close>, main.go lines 21-25.\<close>

record SEQLogger =
  seqURL :: string
  apiKey :: string
  logChan :: "LogMessage chan"

section \<open>The validator\<close>

text \<open>\<open>validateLogMessage\<close>, main.go lines 41-46.\<close>

definition validateLogMessage :: "LogMessage \<Rightarrow> go_error option" where
  "validateLogMessage logMessage =
     (if Timestamp logMessage = [] \<or> Level logMessage = [] \<or> MessageTemplate logMessage = []
      then Some (GoError ''missing required log message fields'')
      else None)"

section \<open>Timestamps\<close>

text \<open>
  The result of \<open>time.Now().UTC()\<close>: a calendar time in UTC. \<open>Format(time.RFC3339)\<close>
  prints it with the layout \<open>2006-01-02T15:04:05Z07:00\<close>, where the zone of a UTC time
  is the letter Z. Numbers are printed as the standard library's \<open>appendInt\<close> does:
  a minus sign for a negative number, then the decimal digits padded with zeros to the
  width.
\<close>

record time =
  Year :: int
  Month :: nat
  Day :: nat
  Hour :: nat
  Minute :: nat
  Second :: nat

definition digit :: "nat \<Rightarrow> char" where
  "digit n = char_of (48 + n mod 10)"

fun decimal :: "nat \<Rightarrow> string" where
  "decimal n = (if n < 10 then [digit n] else decimal (n div 10) @ [digit n])"

declare decimal.simps [simp del]

definition appendInt :: "int \<Rightarrow> nat \<Rightarrow> string" where
  "appendInt x width =
     (let u = nat \<bar>x\<bar>; d = decimal u
      in (if x < 0 then ''-'' else []) @ replicate (width - length d) (CHR ''0'') @ d)"

definition Format_RFC3339 :: "time \<Rightarrow> string" where
  "Format_RFC3339 t =
     appendInt (Year t) 4 @ ''-'' @ appendInt (int (Month t)) 2 @ ''-'' @
     appendInt (int (Day t)) 2 @ ''T'' @ appendInt (int (Hour t)) 2 @ '':'' @
     appendInt (int (Minute t)) 2 @ '':'' @ appendInt (int (Second t)) 2 @ ''Z''"

section \<open>The producer side: Log\<close>

text \<open>
  A line printed with \<open>log.Printf\<close> is modelled by its formatted text, without the
  date and time that the standard logger puts in front. This is the line
  \<open>Local log: %s - %s\<close> that every failure path prints.
\<close>

definition local_log :: "LogMessage \<Rightarrow> string" where
  "local_log logMessage =
     ''Local log: '' @ Level logMessage @ '' - '' @ MessageTemplate logMessage"

text \<open>The struct literal of \<open>Log\<close>, main.go lines 103-108; \<open>now\<close> is the clock's reading.\<close>

definition Log_message :: "time \<Rightarrow> string \<Rightarrow> string \<Rightarrow> go_map \<Rightarrow> LogMessage" where
  "Log_message now level message flds =
     \<lparr>Timestamp = Format_RFC3339 now, Level = level, MessageTemplate = message,
      Fields = flds\<rparr>"

text \<open>
  \<open>Log\<close>, main.go lines 102-117, up to the channel send. The result is the lines
  printed with \<open>log.Printf\<close> and the message that the call goes on to send on
  \<open>l.logChan\<close>, or \<open>None\<close> when it returns early. \<open>Log\<close> has no result value in the
  source, so nothing else reaches the caller.
\<close>

definition Log :: "time \<Rightarrow> string \<Rightarrow> string \<Rightarrow> go_map \<Rightarrow> string list \<times> LogMessage option" where
  "Log now level message flds =
     (let logMessage = Log_message now level message flds
      in case validateLogMessage logMessage of
           Some err \<Rightarrow>
             ([''Validation failed for log message: '' @ Error_msg err, local_log logMessage],
              None)
         | None \<Rightarrow> ([], Some logMessage))"

section \<open>HTTP requests and responses\<close>

text \<open>
  \<open>http.Header\<close> is a map from canonical header names to value lists. \<open>Set\<close> and
  \<open>Values\<close> canonicalise the name with \<open>textproto.CanonicalMIMEHeaderKey\<close>: a name made
  of token bytes only gets an upper-case letter at the start and after each hyphen and
  lower-case letters elsewhere; any other name is left as it is.
\<close>

type_synonym header = "string \<Rightarrow> string list option"

definition is_lower :: "char \<Rightarrow> bool" where
  "is_lower c = (97 \<le> (of_char c :: nat) \<and> (of_char c :: nat) \<le> 122)"

definition is_upper :: "char \<Rightarrow> bool" where
  "is_upper c = (65 \<le> (of_char c :: nat) \<and> (of_char c :: nat) \<le> 90)"

definition is_digit :: "char \<Rightarrow> bool" where
  "is_digit c = (48 \<le> (of_char c :: nat) \<and> (of_char c :: nat) \<le> 57)"

definition validHeaderFieldByte :: "char \<Rightarrow> bool" where
  "validHeaderFieldByte c =
     (is_lower c \<or> is_upper c \<or> is_digit c \<or>
      (of_char c :: nat) \<in> {33, 35, 36, 37, 38, 39, 42, 43, 45, 46, 94, 95, 96, 124, 126})"

definition to_upper :: "char \<Rightarrow> char" where
  "to_upper c = (if is_lower c then char_of ((of_char c :: nat) - 32) else c)"

definition to_lower :: "char \<Rightarrow> char" where
  "to_lower c = (if is_upper c then char_of ((of_char c :: nat) + 32) else c)"

fun canonical_from :: "bool \<Rightarrow> string \<Rightarrow> string" where
  "canonical_from upper [] = []"
| "canonical_from upper (c # cs) =
     (if upper then to_upper c else to_lower c) # canonical_from (c = CHR ''-'') cs"

definition CanonicalMIMEHeaderKey :: "string \<Rightarrow> string" where
  "CanonicalMIMEHeaderKey s =
     (if list_all validHeaderFieldByte s then canonical_from True s else s)"

definition Header_Set :: "header \<Rightarrow> string \<Rightarrow> string \<Rightarrow> header" where
  "Header_Set h key v = h(CanonicalMIMEHeaderKey key \<mapsto> [v])"

definition Header_Values :: "header \<Rightarrow> string \<Rightarrow> string list option" where
  "Header_Values h key = h (CanonicalMIMEHeaderKey key)"

record request =
  Method :: string
  URL :: string
  Header :: header
  ReqBody :: string

text \<open>
  A response as the program reads it: the status line, the status code, and the bytes
  that \<open>ReadFrom(resp.Body)\<close> yields.
\<close>

record response =
  Status :: string
  StatusCode :: int
  Body :: string

text \<open>
  The two library calls whose results depend on data the program does not inspect are
  parameters: \<open>json.Marshal\<close>, and the URL parser through which \<open>http.NewRequest\<close>
  fails. \<open>http.NewRequest\<close> itself returns a request with the method, the parsed URL,
  the body and an empty header; the method \<open>POST\<close> is always accepted.
\<close>

record library =
  json_Marshal :: "go_value \<Rightarrow> go_error + string"
  url_Parse :: "string \<Rightarrow> go_error + string"

definition http_NewRequest :: "library \<Rightarrow> string \<Rightarrow> string \<Rightarrow> string \<Rightarrow> go_error + request" where
  "http_NewRequest lib method url body =
     (case url_Parse lib url of
        Inl err \<Rightarrow> Inl err
      | Inr u \<Rightarrow> Inr \<lparr>Method = method, URL = u, Header = Map.empty, ReqBody = body\<rparr>)"

section \<open>One iteration of the worker\<close>

text \<open>The map literal of \<open>processLogs\<close>, main.go lines 54-63.\<close>

definition payload :: "LogMessage \<Rightarrow> go_value" where
  "payload logMessage =
     VMap (Some [''Events'' \<mapsto> VSlice [VMap (Some
       [''Timestamp'' \<mapsto> VString (Timestamp logMessage),
        ''Level'' \<mapsto> VString (Level logMessage),
        ''MessageTemplate'' \<mapsto> VString (MessageTemplate logMessage),
        ''Properties'' \<mapsto> VMap (Fields logMessage)])]])"

text \<open>
  The first half of the loop body, main.go lines 54-82: from the dequeued message to the
  request handed to \<open>client.Do\<close>. The result is the lines printed and the request, or
  \<open>None\<close> where the source says \<open>continue\<close>.
\<close>

definition prepare :: "library \<Rightarrow> SEQLogger \<Rightarrow> LogMessage \<Rightarrow> string list \<times> request option" where
  "prepare lib l logMessage =
     (case json_Marshal lib (payload logMessage) of
        Inl err \<Rightarrow>
          ([''Failed to marshal log message: '' @ Error_msg err, local_log logMessage], None)
      | Inr data \<Rightarrow>
          (case http_NewRequest lib ''POST'' (seqURL l) data of
             Inl err \<Rightarrow>
               ([''Failed to create HTTP request: '' @ Error_msg err, local_log logMessage],
                None)
           | Inr req \<Rightarrow>
               (let req1 = req\<lparr>Header := Header_Set (Header req) ''Content-Type'' ''application/json''\<rparr>;
                    req2 = (if apiKey l \<noteq> []
                            then req1\<lparr>Header := Header_Set (Header req1) ''X-Seq-ApiKey'' (apiKey l)\<rparr>
                            else req1)
                in ([], Some req2))))"

text \<open>
  The second half, main.go lines 84-97: from the result of \<open>client.Do\<close> to the end of
  the loop body. The result is the lines printed and the response whose
  \<open>Body.Close()\<close> the \<open>defer\<close> statement of line 90 registered, if that line was reached.
\<close>

definition finish :: "LogMessage \<Rightarrow> go_error + response \<Rightarrow> string list \<times> response option" where
  "finish logMessage result =
     (case result of
        Inl err \<Rightarrow>
          ([''Failed to send log message: '' @ Error_msg err, local_log logMessage], None)
      | Inr resp \<Rightarrow>
          ((if StatusCode resp \<noteq> 200
            then [''SEQ server responded with '' @ Status resp @ ''. Response: '' @ Body resp,
                  local_log logMessage]
            else []),
           Some resp))"

section \<open>The dispatcher as a system of goroutines\<close>

text \<open>
  The worker goroutine is either at the \<open>range\<close> statement, ready to receive, or inside
  \<open>client.Do\<close> with the request it built for a message.
\<close>

datatype worker = Receiving | Sending LogMessage request

text \<open>
  The state of a dispatcher: the logger with its channel, the worker, the producers
  that stand at the statement \<open>l.logChan <- logMessage\<close> of \<open>Log\<close> (line 116), the lines
  printed by \<open>log.Printf\<close>, the requests handed to \<open>client.Do\<close> (each with the message
  it was built for), the number of \<open>client.Do\<close> calls that have returned, the calls
  deferred by \<open>processLogs\<close> (newest first) and the response bodies that are open. The
  last two fields record the history of the channel: the messages in the order in which
  their sends completed, and in the order in which the worker received them.
\<close>

record system =
  logger :: SEQLogger
  worker :: worker
  senders :: "LogMessage list"
  console :: "string list"
  wire :: "(LogMessage \<times> request) list"
  returned :: nat
  deferred :: "response list"
  open_bodies :: "response list"
  enqueued :: "LogMessage list"
  received :: "LogMessage list"

text \<open>
  \<open>NewSEQLogger\<close>, main.go lines 28-38: the state right after the constructor has
  started the worker. \<open>make(chan LogMessage, bufferSize)\<close> panics on a negative size
  (\<open>None\<close>).
\<close>

definition started :: "string \<Rightarrow> string \<Rightarrow> nat \<Rightarrow> system" where
  "started url key capacity =
     \<lparr>logger = \<lparr>seqURL = url, apiKey = key, logChan = \<lparr>buf = [], cap = capacity\<rparr>\<rparr>,
      worker = Receiving, senders = [], console = [], wire = [], returned = 0,
      deferred = [], open_bodies = [], enqueued = [], received = []\<rparr>"

definition NewSEQLogger :: "string \<Rightarrow> string \<Rightarrow> int \<Rightarrow> system option" where
  "NewSEQLogger url key bufferSize =
     (if bufferSize < 0 then None else Some (started url key (nat bufferSize)))"

definition chan_buf :: "system \<Rightarrow> LogMessage list" where
  "chan_buf s = buf (logChan (logger s))"

definition chan_cap :: "system \<Rightarrow> nat" where
  "chan_cap s = cap (logChan (logger s))"

definition set_buf :: "LogMessage list \<Rightarrow> system \<Rightarrow> system" where
  "set_buf b s = s\<lparr>logger := (logger s)\<lparr>logChan := (logChan (logger s))\<lparr>buf := b\<rparr>\<rparr>\<rparr>"

text \<open>
  The worker has received \<open>logMessage\<close> from the channel and runs the loop body up to
  the call of \<open>client.Do\<close> (lines 52-84).
\<close>

definition begin_iteration :: "library \<Rightarrow> LogMessage \<Rightarrow> system \<Rightarrow> system" where
  "begin_iteration lib logMessage s =
     (case prepare lib (logger s) logMessage of
        (lines, None) \<Rightarrow>
          s\<lparr>console := console s @ lines, received := received s @ [logMessage]\<rparr>
      | (lines, Some req) \<Rightarrow>
          s\<lparr>worker := Sending logMessage req, console := console s @ lines,
            wire := wire s @ [(logMessage, req)], received := received s @ [logMessage]\<rparr>)"

text \<open>
  \<open>client.Do\<close> has returned \<open>result\<close> and the worker runs the rest of the loop body
  (lines 85-98). The \<open>defer\<close> statement pushes the call \<open>resp.Body.Close()\<close>; nothing in
  the loop body closes the body.
\<close>

definition end_iteration :: "go_error + response \<Rightarrow> system \<Rightarrow> system" where
  "end_iteration result s =
     (case worker s of
        Receiving \<Rightarrow> s
      | Sending logMessage req \<Rightarrow>
          (case finish logMessage result of
             (lines, None) \<Rightarrow>
               s\<lparr>worker := Receiving, console := console s @ lines, returned := Suc (returned s)\<rparr>
           | (lines, Some resp) \<Rightarrow>
               s\<lparr>worker := Receiving, console := console s @ lines, returned := Suc (returned s),
                 deferred := resp # deferred s, open_bodies := open_bodies s @ [resp]\<rparr>))"

text \<open>
  A producer calls \<open>Log\<close>: the lines are printed and, unless the call returned early,
  the producer stands at the send statement with its message.
\<close>

definition Log_call :: "time \<Rightarrow> string \<Rightarrow> string \<Rightarrow> go_map \<Rightarrow> system \<Rightarrow> system" where
  "Log_call now level message flds s =
     (case Log now level message flds of
        (lines, None) \<Rightarrow> s\<lparr>console := console s @ lines\<rparr>
      | (lines, Some logMessage) \<Rightarrow>
          s\<lparr>console := console s @ lines, senders := senders s @ [logMessage]\<rparr>)"

text \<open>
  The steps of the system. A call of \<open>Log\<close> by any producer, at any clock reading and
  with any arguments, prints its lines and, unless it returned early, stands at the send
  statement. A send on the channel completes when the buffer has room, or when the buffer
  is empty and the worker is ready to receive, in which case the message goes to the
  worker directly (the only way on a channel of capacity 0). The worker receives the
  oldest message of the buffer. A pending \<open>client.Do\<close> returns with any result. The
  program never closes the channel, so the worker's loop has no exit here.
\<close>

inductive step :: "library \<Rightarrow> system \<Rightarrow> system \<Rightarrow> bool" for lib :: library where
  log_call:
    "step lib s (Log_call now level message flds s)"
| chan_send:
    "m \<in> set (senders s) \<Longrightarrow> length (chan_buf s) < chan_cap s \<Longrightarrow>
     step lib s (set_buf (chan_buf s @ [m])
                  (s\<lparr>senders := remove1 m (senders s), enqueued := enqueued s @ [m]\<rparr>))"
| chan_handoff:
    "m \<in> set (senders s) \<Longrightarrow> chan_buf s = [] \<Longrightarrow> worker s = Receiving \<Longrightarrow>
     step lib s (begin_iteration lib m
                  (s\<lparr>senders := remove1 m (senders s), enqueued := enqueued s @ [m]\<rparr>))"
| chan_receive:
    "worker s = Receiving \<Longrightarrow> chan_buf s = m # rest \<Longrightarrow>
     step lib s (begin_iteration lib m (set_buf rest s))"
| do_return:
    "worker s = Sending m req \<Longrightarrow> step lib s (end_iteration result s)"

definition reachable :: "library \<Rightarrow> system \<Rightarrow> system \<Rightarrow> bool" where
  "reachable lib s0 s = (step lib)\<^sup>*\<^sup>* s0 s"

section \<open>The worker alone\<close>

text \<open>
  One pass of the loop body for a received message; \<open>net\<close> is the network's answer to
  the request, indexed by the number of calls that returned before.
\<close>

definition iteration ::
  "library \<Rightarrow> (nat \<Rightarrow> request \<Rightarrow> go_error + response) \<Rightarrow> LogMessage \<Rightarrow> system \<Rightarrow> system" where
  "iteration lib net logMessage s =
     (case snd (prepare lib (logger s) logMessage) of
        None \<Rightarrow> begin_iteration lib logMessage s
      | Some req \<Rightarrow> end_iteration (net (returned s) req) (begin_iteration lib logMessage s))"

text \<open>The \<open>range\<close> loop of \<open>processLogs\<close> over the messages the channel delivers.\<close>

fun range_loop ::
  "library \<Rightarrow> (nat \<Rightarrow> request \<Rightarrow> go_error + response) \<Rightarrow> LogMessage list \<Rightarrow> system \<Rightarrow> system" where
  "range_loop lib net [] s = s"
| "range_loop lib net (logMessage # rest) s =
     range_loop lib net rest (iteration lib net logMessage s)"

text \<open>
  A deferred \<open>Body.Close()\<close> closes that body. The deferred calls run when the function
  returns, newest first.
\<close>

definition close_body :: "response \<Rightarrow> system \<Rightarrow> system" where
  "close_body resp s = s\<lparr>open_bodies := remove1 resp (open_bodies s)\<rparr>"

definition run_deferred :: "system \<Rightarrow> system" where
  "run_deferred s = (fold close_body (deferred s) s)\<lparr>deferred := []\<rparr>"

text \<open>
  \<open>processLogs\<close>, main.go lines 49-99, on a channel that delivers \<open>msgs\<close> and is then
  closed: the loop, then the return.
\<close>

definition processLogs ::
  "library \<Rightarrow> (nat \<Rightarrow> request \<Rightarrow> go_error + response) \<Rightarrow> LogMessage list \<Rightarrow> system \<Rightarrow> system" where
  "processLogs lib net msgs s = run_deferred (range_loop lib net msgs s)"

section \<open>What the worker has put on the wire\<close>

text \<open>
  The requests that the loop body builds for a list of messages, in order: one for each
  message that is marshalled and gets a request, none for the others.
\<close>

definition sends :: "library \<Rightarrow> SEQLogger \<Rightarrow> LogMessage list \<Rightarrow> (LogMessage \<times> request) list" where
  "sends lib l msgs =
     concat (map (\<lambda>m. case snd (prepare lib l m) of None \<Rightarrow> [] | Some req \<Rightarrow> [(m, req)]) msgs)"

text \<open>The number of \<open>client.Do\<close> calls that have started and not returned.\<close>

definition in_flight :: "system \<Rightarrow> nat" where
  "in_flight s = (case worker s of Receiving \<Rightarrow> 0 | Sending m req \<Rightarrow> 1)"

text \<open>What holds in every state that a dispatcher made by \<open>NewSEQLogger\<close> reaches.\<close>

definition invariant :: "library \<Rightarrow> string \<Rightarrow> string \<Rightarrow> nat \<Rightarrow> system \<Rightarrow> bool" where
  "invariant lib url key n s =
     (seqURL (logger s) = url \<and> apiKey (logger s) = key \<and> chan_cap s = n \<and>
      length (chan_buf s) \<le> n \<and>
      enqueued s = received s @ chan_buf s \<and>
      list_all (\<lambda>m. validateLogMessage m = None) (senders s @ enqueued s) \<and>
      wire s = sends lib (logger s) (received s) \<and>
      length (wire s) = returned s + in_flight s \<and>
      open_bodies s = rev (deferred s))"

section \<open>Reading a payload\<close>




section \<open>A concrete dispatcher\<close>

text \<open>
  The first call of \<open>main\<close> (lines 125-127) at a fixed clock reading, on a dispatcher
  with a channel of capacity 1, and a library whose marshaller knows the payload of that
  one message and whose URL parser accepts every URL; either can be switched to fail.
\<close>

definition demo_time :: time where
  "demo_time = \<lparr>Year = 2024, Month = 5, Day = 1, Hour = 10, Minute = 0, Second = 0\<rparr>"

definition demo_message :: LogMessage where
  "demo_message =
     \<lparr>Timestamp = ''2024-05-01T10:00:00Z'', Level = ''Information'',
      MessageTemplate = ''Application started'',
      Fields = Some [''version'' \<mapsto> VString ''1.0.0'']\<rparr>"

definition demo_body :: string where
  "demo_body = ''{\"Events\":[{\"Level\":\"Information\",\"MessageTemplate\":\"Application started\",\"Properties\":{\"version\":\"1.0.0\"},\"Timestamp\":\"2024-05-01T10:00:00Z\"}]}''"

definition demo_lib :: "bool \<Rightarrow> bool \<Rightarrow> library" where
  "demo_lib marshals parses =
     \<lparr>json_Marshal = (\<lambda>v. if marshals \<and> v = payload demo_message then Inr demo_body
                           else Inl (GoError ''json: unsupported type'')),
      url_Parse = (\<lambda>u. if parses then Inr u else Inl (GoError ''parse: invalid URL''))\<rparr>"


definition demo_system :: system where
  "demo_system = started ''http://localhost:5341/api/events/raw'' ''YourAPIKey'' 1"

definition demo_request :: "string \<Rightarrow> request" where
  "demo_request key =
     \<lparr>Method = ''POST'', URL = ''http://localhost:5341/api/events/raw'',
      Header = (if key = [] then [''Content-Type'' \<mapsto> [''application/json'']]
                else [''Content-Type'' \<mapsto> [''application/json''],
                      ''X-Seq-Apikey'' \<mapsto> [key]]),
      ReqBody = demo_body\<rparr>"

text \<open>
  Two states of a run in which \<open>Log\<close> is called twice with the same arguments at the
  same clock reading: the first message fills the channel while the second producer
  stands at the send statement; then the worker has received the first message and is
  inside \<open>client.Do\<close>.
\<close>

definition demo_full :: system where
  "demo_full =
     \<lparr>logger = \<lparr>seqURL = ''http://localhost:5341/api/events/raw'', apiKey = ''YourAPIKey'',
                 logChan = \<lparr>buf = [demo_message], cap = 1\<rparr>\<rparr>,
      worker = Receiving, senders = [demo_message], console = [], wire = [], returned = 0,
      deferred = [], open_bodies = [], enqueued = [demo_message], received = []\<rparr>"

definition demo_sending :: system where
  "demo_sending =
     \<lparr>logger = \<lparr>seqURL = ''http://localhost:5341/api/events/raw'', apiKey = ''YourAPIKey'',
                 logChan = \<lparr>buf = [], cap = 1\<rparr>\<rparr>,
      worker = Sending demo_message (demo_request ''YourAPIKey''), senders = [demo_message],
      console = [], wire = [(demo_message, demo_request ''YourAPIKey'')], returned = 0,
      deferred = [], open_bodies = [], enqueued = [demo_message], received = [demo_message]\<rparr>"

definition demo_response :: "int \<Rightarrow> response" where
  "demo_response code =
     (if code = 200 then \<lparr>Status = ''200 OK'', StatusCode = 200, Body = []\<rparr>
      else \<lparr>Status = ''500 Internal Server Error'', StatusCode = code,
             Body = ''storage unavailable''\<rparr>)"

section \<open>Auxiliary facts\<close>

lemma canonical_Content_Type: "CanonicalMIMEHeaderKey ''Content-Type'' = ''Content-Type''"
  by code_simp

lemma canonical_X_Seq_ApiKey: "CanonicalMIMEHeaderKey ''X-Seq-ApiKey'' = ''X-Seq-Apikey''"
  by code_simp

lemma Format_RFC3339_nonempty: "Format_RFC3339 t \<noteq> []"
  by (simp add: Format_RFC3339_def)


lemma prepare_Some:
  "snd (prepare lib l m) = Some req \<Longrightarrow>
   \<exists>data u. json_Marshal lib (payload m) = Inr data \<and> url_Parse lib (seqURL l) = Inr u \<and>
     req = \<lparr>Method = ''POST'', URL = u,
            Header = (if apiKey l \<noteq> []
                      then [''Content-Type'' \<mapsto> [''application/json''], ''X-Seq-Apikey'' \<mapsto> [apiKey l]]
                      else [''Content-Type'' \<mapsto> [''application/json'']]),
            ReqBody = data\<rparr>"
  by (auto simp: prepare_def http_NewRequest_def Header_Set_def Let_def
        canonical_Content_Type canonical_X_Seq_ApiKey split: sum.splits if_splits)

lemma demo_prepare:
  "prepare (demo_lib True True) (logger demo_system) demo_message
     = ([], Some (demo_request ''YourAPIKey''))"
  by (simp add: prepare_def demo_lib_def demo_system_def started_def demo_request_def
        http_NewRequest_def Header_Set_def canonical_Content_Type canonical_X_Seq_ApiKey)

lemma demo_prepare_no_key:
  "prepare (demo_lib True True) ((logger demo_system)\<lparr>apiKey := []\<rparr>) demo_message
     = ([], Some (demo_request []))"
  by (simp add: prepare_def demo_lib_def demo_system_def started_def demo_request_def
        http_NewRequest_def Header_Set_def canonical_Content_Type canonical_X_Seq_ApiKey)

lemma iteration_console:
  "console (iteration lib net m s) =
     console s @ fst (prepare lib (logger s) m) @
       (case snd (prepare lib (logger s) m) of None \<Rightarrow> []
        | Some req \<Rightarrow> fst (finish m (net (returned s) req)))"
  by (cases "prepare lib (logger s) m")
     (auto simp: iteration_def begin_iteration_def end_iteration_def
        split: option.splits prod.splits)

lemma prepare_cong:
  "seqURL l = seqURL l' \<Longrightarrow> apiKey l = apiKey l' \<Longrightarrow> prepare lib l m = prepare lib l' m"
  by (simp add: prepare_def Let_def cong: sum.case_cong if_cong)

lemma sends_cong:
  "seqURL l = seqURL l' \<Longrightarrow> apiKey l = apiKey l' \<Longrightarrow> sends lib l ms = sends lib l' ms"
  by (simp add: sends_def prepare_cong [of l l'])

lemma sends_append: "sends lib l (xs @ ys) = sends lib l xs @ sends lib l ys"
  by (simp add: sends_def)

lemma set_buf_fields:
  "chan_buf (set_buf b s) = b" "chan_cap (set_buf b s) = chan_cap s"
  "seqURL (logger (set_buf b s)) = seqURL (logger s)"
  "apiKey (logger (set_buf b s)) = apiKey (logger s)"
  "worker (set_buf b s) = worker s" "senders (set_buf b s) = senders s"
  "console (set_buf b s) = console s" "wire (set_buf b s) = wire s"
  "returned (set_buf b s) = returned s" "deferred (set_buf b s) = deferred s"
  "open_bodies (set_buf b s) = open_bodies s" "enqueued (set_buf b s) = enqueued s"
  "received (set_buf b s) = received s"
  by (simp_all add: set_buf_def chan_buf_def chan_cap_def)

lemma chan_other_fields:
  "chan_buf (s\<lparr>senders := a\<rparr>) = chan_buf s" "chan_cap (s\<lparr>senders := a\<rparr>) = chan_cap s"
  "chan_buf (s\<lparr>enqueued := b\<rparr>) = chan_buf s" "chan_cap (s\<lparr>enqueued := b\<rparr>) = chan_cap s"
  "chan_buf (s\<lparr>console := c\<rparr>) = chan_buf s" "chan_cap (s\<lparr>console := c\<rparr>) = chan_cap s"
  by (simp_all add: chan_buf_def chan_cap_def)

lemma begin_iteration_fields:
  "logger (begin_iteration lib m s) = logger s"
  "chan_buf (begin_iteration lib m s) = chan_buf s"
  "chan_cap (begin_iteration lib m s) = chan_cap s"
  "senders (begin_iteration lib m s) = senders s"
  "returned (begin_iteration lib m s) = returned s"
  "deferred (begin_iteration lib m s) = deferred s"
  "open_bodies (begin_iteration lib m s) = open_bodies s"
  "enqueued (begin_iteration lib m s) = enqueued s"
  "received (begin_iteration lib m s) = received s @ [m]"
  "console (begin_iteration lib m s) = console s @ fst (prepare lib (logger s) m)"
  "wire (begin_iteration lib m s) = wire s @ sends lib (logger s) [m]"
  "worker (begin_iteration lib m s) =
     (case snd (prepare lib (logger s) m) of None \<Rightarrow> worker s | Some req \<Rightarrow> Sending m req)"
  by (cases "prepare lib (logger s) m";
      simp add: begin_iteration_def chan_buf_def chan_cap_def sends_def split: option.splits)+

lemma end_iteration_fields:
  assumes "worker s = Sending m req"
  shows "logger (end_iteration result s) = logger s"
    "chan_buf (end_iteration result s) = chan_buf s"
    "chan_cap (end_iteration result s) = chan_cap s"
    "senders (end_iteration result s) = senders s"
    "returned (end_iteration result s) = Suc (returned s)"
    "enqueued (end_iteration result s) = enqueued s"
    "received (end_iteration result s) = received s"
    "wire (end_iteration result s) = wire s"
    "worker (end_iteration result s) = Receiving"
    "console (end_iteration result s) = console s @ fst (finish m result)"
    "deferred (end_iteration result s) =
       (case snd (finish m result) of None \<Rightarrow> [] | Some resp \<Rightarrow> [resp]) @ deferred s"
    "open_bodies (end_iteration result s) =
       open_bodies s @ (case snd (finish m result) of None \<Rightarrow> [] | Some resp \<Rightarrow> [resp])"
  using assms
  by (cases "finish m result";
      simp add: end_iteration_def chan_buf_def chan_cap_def split: option.splits)+

lemma invariant_started: "invariant lib url key n (started url key n)"
  by (simp add: invariant_def started_def chan_cap_def chan_buf_def sends_def in_flight_def)

lemma Log_valid: "Log now level message flds = (lines, Some m) \<Longrightarrow> validateLogMessage m = None"
  by (auto simp: Log_def Let_def split: option.splits)

lemma sends_set_buf: "sends lib (logger (set_buf b s)) ms = sends lib (logger s) ms"
  by (rule sends_cong) (simp_all add: set_buf_def)

lemma prepare_set_buf: "prepare lib (logger (set_buf b s)) m = prepare lib (logger s) m"
  by (rule prepare_cong) (simp_all add: set_buf_def)

lemma length_sends_single:
  "length (sends lib l [m]) = (case snd (prepare lib l m) of None \<Rightarrow> 0 | Some req \<Rightarrow> 1)"
  by (simp add: sends_def split: option.splits)

lemma invariant_step:
  assumes "invariant lib url key n s" and "step lib s s'"
  shows "invariant lib url key n s'"
  using assms(2)
proof cases
  case (log_call now level message flds)
  then show ?thesis using assms(1)
    by (cases "Log now level message flds")
       (auto simp: invariant_def Log_call_def chan_other_fields in_flight_def
          split: option.splits dest: Log_valid)
next
  case (chan_send m)
  then show ?thesis using assms(1)
    by (auto simp: invariant_def set_buf_fields in_flight_def chan_other_fields
          sends_set_buf list_all_iff dest: set_remove1_subset [THEN subsetD])
next
  case (chan_handoff m)
  from chan_handoff assms(1) show ?thesis
    by (auto simp: invariant_def begin_iteration_fields chan_other_fields sends_append in_flight_def
          length_sends_single
          list_all_iff split: option.splits dest: set_remove1_subset [THEN subsetD])
next
  case (chan_receive m rest)
  from chan_receive assms(1) show ?thesis
    by (auto simp: invariant_def begin_iteration_fields set_buf_fields sends_append in_flight_def
          length_sends_single sends_set_buf prepare_set_buf
          list_all_iff split: option.splits)
next
  case (do_return m req result)
  then show ?thesis using assms(1)
    by (auto simp: invariant_def end_iteration_fields [of s m req] in_flight_def
          split: option.splits)
qed

lemma invariant_reachable:
  "reachable lib (started url key n) s \<Longrightarrow> invariant lib url key n s"
  unfolding reachable_def
  by (induction rule: rtranclp_induct) (auto intro: invariant_started invariant_step)

lemma NewSEQLogger_invariant:
  "NewSEQLogger url key bufferSize = Some s0 \<Longrightarrow> reachable lib s0 s \<Longrightarrow>
   invariant lib url key (nat bufferSize) s"
  by (auto simp: NewSEQLogger_def split: if_splits intro: invariant_reachable)

lemma fst_sends_subset: "fst ` set (sends lib l ms) \<subseteq> set ms"
  by (auto simp: sends_def split: option.splits)

lemma map_fst_sends:
  "map fst (sends lib l ms) = filter (\<lambda>m. snd (prepare lib l m) \<noteq> None) ms"
  by (induction ms) (auto simp: sends_def split: option.splits)

lemma sends_prepare: "(m, req) \<in> set (sends lib l ms) \<Longrightarrow> snd (prepare lib l m) = Some req"
  by (auto simp: sends_def split: option.splits)

lemma Log_call_invalid:
  assumes "validateLogMessage (Log_message now level message flds) \<noteq> None"
  shows "Log_call now level message flds s =
           s\<lparr>console := console s @
               [''Validation failed for log message: missing required log message fields'',
                ''Local log: '' @ level @ '' - '' @ message]\<rparr>"
  using assms
  by (auto simp: Log_call_def Log_def Let_def validateLogMessage_def Log_message_def
        local_log_def split: option.splits if_splits)

lemma Log_call_valid:
  assumes "validateLogMessage (Log_message now level message flds) = None"
  shows "Log_call now level message flds s =
           s\<lparr>console := console s, senders := senders s @ [Log_message now level message flds]\<rparr>"
  using assms by (simp add: Log_call_def Log_def Let_def)

lemma step_wire:
  assumes "step lib s s'"
  shows "wire s' = wire s \<or>
         (in_flight s = 0 \<and> (\<exists>m req. wire s' = wire s @ [(m, req)] \<and> worker s' = Sending m req))"
  using assms
proof cases
  case (log_call now level message flds)
  then show ?thesis
    by (cases "Log now level message flds") (auto simp: Log_call_def split: option.splits)
next
  case (chan_send m)
  then show ?thesis by (simp add: set_buf_fields)
next
  case (chan_handoff m)
  then show ?thesis
    by (auto simp: begin_iteration_fields in_flight_def sends_def split: option.splits)
next
  case (chan_receive m rest)
  then show ?thesis
    by (auto simp: begin_iteration_fields set_buf_fields in_flight_def sends_def
          prepare_set_buf split: option.splits)
next
  case (do_return m req result)
  then show ?thesis by (simp add: end_iteration_fields [of s m req])
qed

lemma demo_Log_message:
  "Log_message demo_time ''Information'' ''Application started''
     (Some [''version'' \<mapsto> VString ''1.0.0'']) = demo_message"
proof -
  have "Format_RFC3339 demo_time = ''2024-05-01T10:00:00Z''" by code_simp
  then show ?thesis by (simp add: Log_message_def demo_message_def)
qed

lemma demo_message_valid: "validateLogMessage demo_message = None"
  by (simp add: validateLogMessage_def demo_message_def)

lemma reachable_refl: "reachable lib s s"
  by (simp add: reachable_def)

lemma reachable_step: "reachable lib s0 s \<Longrightarrow> step lib s s' \<Longrightarrow> reachable lib s0 s'"
  by (simp add: reachable_def)

lemma demo_NewSEQLogger:
  "NewSEQLogger ''http://localhost:5341/api/events/raw'' ''YourAPIKey'' 1 = Some demo_system"
  by (simp add: NewSEQLogger_def demo_system_def)

lemma demo_full_reachable: "reachable lib demo_system demo_full"
proof -
  let ?call = "Log_call demo_time ''Information'' ''Application started''
                 (Some [''version'' \<mapsto> VString ''1.0.0''])"
  let ?s1 = "demo_system\<lparr>console := [], senders := [demo_message]\<rparr>"
  let ?s2 = "set_buf [demo_message] (?s1\<lparr>senders := [], enqueued := [demo_message]\<rparr>)"
  have c: "?call s = s\<lparr>console := console s, senders := senders s @ [demo_message]\<rparr>" for s
    using Log_call_valid [of demo_time "''Information''" "''Application started''"
            "Some [''version'' \<mapsto> VString ''1.0.0'']" s]
    by (simp add: demo_Log_message demo_message_valid)
  have "step lib demo_system (?call demo_system)" by (rule step.log_call)
  moreover have "?call demo_system = ?s1"
    by (simp add: c demo_system_def started_def)
  ultimately have 1: "reachable lib demo_system ?s1"
    using reachable_step [OF reachable_refl] by metis
  have "step lib ?s1 (set_buf (chan_buf ?s1 @ [demo_message])
          (?s1\<lparr>senders := remove1 demo_message (senders ?s1),
                enqueued := enqueued ?s1 @ [demo_message]\<rparr>))"
    by (rule step.chan_send) (simp_all add: chan_buf_def chan_cap_def demo_system_def started_def)
  moreover have "set_buf (chan_buf ?s1 @ [demo_message])
          (?s1\<lparr>senders := remove1 demo_message (senders ?s1),
                enqueued := enqueued ?s1 @ [demo_message]\<rparr>) = ?s2"
    by (simp add: chan_buf_def demo_system_def started_def)
  ultimately have 2: "reachable lib demo_system ?s2"
    using reachable_step [OF 1] by metis
  have "step lib ?s2 (?call ?s2)" by (rule step.log_call)
  moreover have "?call ?s2 = demo_full"
    by (simp add: c demo_system_def started_def set_buf_def demo_full_def)
  ultimately show ?thesis
    using reachable_step [OF 2] by metis
qed

lemma demo_receive: "step (demo_lib True True) demo_full demo_sending"
proof -
  have "step (demo_lib True True) demo_full
          (begin_iteration (demo_lib True True) demo_message (set_buf [] demo_full))"
    by (rule step.chan_receive) (simp_all add: demo_full_def chan_buf_def)
  moreover have "logger (set_buf [] demo_full) = (logger demo_system)\<lparr>logChan := \<lparr>buf = [], cap = 1\<rparr>\<rparr>"
    by (simp add: set_buf_def demo_full_def demo_system_def started_def)
  then have "prepare (demo_lib True True) (logger (set_buf [] demo_full)) demo_message
               = ([], Some (demo_request ''YourAPIKey''))"
    using prepare_cong [of "logger (set_buf [] demo_full)" "logger demo_system"
            "demo_lib True True" demo_message]
    by (simp add: demo_prepare)
  then have "begin_iteration (demo_lib True True) demo_message (set_buf [] demo_full) = demo_sending"
    by (simp add: begin_iteration_def) (simp add: set_buf_def demo_full_def demo_sending_def)
  ultimately show ?thesis by simp
qed

lemma demo_sending_reachable: "reachable (demo_lib True True) demo_system demo_sending"
  by (rule reachable_step [OF demo_full_reachable demo_receive])

lemma step_keeps_bodies_open:
  assumes "step lib s s'"
  shows "\<exists>new. open_bodies s' = open_bodies s @ new"
  using assms
proof cases
  case (log_call now level message flds)
  then show ?thesis
    by (cases "Log now level message flds") (auto simp: Log_call_def split: option.splits)
next
  case (chan_send m)
  then show ?thesis by (simp add: set_buf_fields)
next
  case (chan_handoff m)
  then show ?thesis by (simp add: begin_iteration_fields)
next
  case (chan_receive m rest)
  then show ?thesis by (simp add: begin_iteration_fields set_buf_fields)
next
  case (do_return m req result)
  then show ?thesis by (simp add: end_iteration_fields [of s m req])
qed

lemma step_senders:
  assumes "step lib s s'"
  shows "count_list (senders s) m + count_list (enqueued s) m
           \<le> count_list (senders s') m + count_list (enqueued s') m"
  using assms
proof cases
  case (log_call now level message flds)
  then show ?thesis
    by (cases "Log now level message flds") (auto simp: Log_call_def split: option.splits)
next
  case (chan_send x)
  then show ?thesis
    by (cases "x = m") (auto simp: set_buf_fields)
next
  case (chan_handoff x)
  then show ?thesis
    by (cases "x = m") (auto simp: begin_iteration_fields)
next
  case (chan_receive x rest)
  then show ?thesis by (simp add: begin_iteration_fields set_buf_fields)
next
  case (do_return x req result)
  then show ?thesis by (simp add: end_iteration_fields [of s x req])
qed

lemma step_blocked:
  assumes "step lib s s'" and "length (chan_buf s) = chan_cap s"
    and "chan_buf s \<noteq> [] \<or> worker s \<noteq> Receiving"
  shows "enqueued s' = enqueued s \<and> (\<exists>new. senders s' = senders s @ new)"
  using assms(1)
proof cases
  case (log_call now level message flds)
  then show ?thesis
    by (cases "Log now level message flds") (auto simp: Log_call_def split: option.splits)
next
  case (chan_send m)
  with assms(2) show ?thesis by simp
next
  case (chan_handoff m)
  with assms(3) show ?thesis by simp
next
  case (chan_receive m rest)
  then show ?thesis by (simp add: begin_iteration_fields set_buf_fields)
next
  case (do_return m req result)
  then show ?thesis by (simp add: end_iteration_fields [of s m req])
qed

lemma iteration_fields:
  "logger (iteration lib net m s) = logger s"
  "chan_buf (iteration lib net m s) = chan_buf s"
  "senders (iteration lib net m s) = senders s"
  "enqueued (iteration lib net m s) = enqueued s"
  "received (iteration lib net m s) = received s @ [m]"
  "wire (iteration lib net m s) = wire s @ sends lib (logger s) [m]"
  "worker s = Receiving \<Longrightarrow> worker (iteration lib net m s) = Receiving"
  by (cases "snd (prepare lib (logger s) m)";
      simp add: iteration_def begin_iteration_fields
        end_iteration_fields [of "begin_iteration lib m s" m])+

lemma iteration_open_bodies:
  "open_bodies (iteration lib net m s) =
     open_bodies s @
       (case snd (prepare lib (logger s) m) of
          None \<Rightarrow> []
        | Some req \<Rightarrow> (case snd (finish m (net (returned s) req)) of
                         None \<Rightarrow> [] | Some resp \<Rightarrow> [resp]))"
  by (cases "snd (prepare lib (logger s) m)";
      simp add: iteration_def begin_iteration_fields
        end_iteration_fields [of "begin_iteration lib m s" m])



lemma iteration_deferred:
  "deferred (iteration lib net m s) =
     (case snd (prepare lib (logger s) m) of
        None \<Rightarrow> []
      | Some req \<Rightarrow> (case snd (finish m (net (returned s) req)) of
                       None \<Rightarrow> [] | Some resp \<Rightarrow> [resp])) @ deferred s"
  by (cases "snd (prepare lib (logger s) m)";
      simp add: iteration_def begin_iteration_fields
        end_iteration_fields [of "begin_iteration lib m s" m])

lemma demo_finish_200:
  "finish demo_message (Inr (demo_response 200)) = ([], Some (demo_response 200))"
  by (simp add: finish_def demo_response_def)

section \<open>The validator and Log\<close>

text \<open>
  C2. An entry whose timestamp, level and message template are all non-empty passes
  \<open>validateLogMessage\<close>; an entry in which one of the three is empty fails with the
  missing-fields error; the fields map never matters.
\<close>

theorem validateLogMessage_required_fields:
  "(Timestamp m \<noteq> [] \<and> Level m \<noteq> [] \<and> MessageTemplate m \<noteq> []
      \<longrightarrow> validateLogMessage m = None) \<and>
   (Timestamp m = [] \<or> Level m = [] \<or> MessageTemplate m = []
      \<longrightarrow> validateLogMessage m = Some (GoError ''missing required log message fields'')) \<and>
   validateLogMessage (m\<lparr>Fields := f\<rparr>) = validateLogMessage m"
  by (simp add: validateLogMessage_def)

theorem validateLogMessage_required_fields_witness:
  "validateLogMessage \<lparr>Timestamp = ''2024-05-01T10:00:00Z'', Level = ''Error'',
      MessageTemplate = ''An error occurred'', Fields = None\<rparr> = None \<and>
   validateLogMessage \<lparr>Timestamp = ''2024-05-01T10:00:00Z'', Level = ''Error'',
      MessageTemplate = [], Fields = Some [''userID'' \<mapsto> VString ''12345'']\<rparr>
     = Some (GoError ''missing required log message fields'')"
  using validateLogMessage_required_fields
          [of "\<lparr>Timestamp = ''2024-05-01T10:00:00Z'', Level = ''Error'',
                 MessageTemplate = ''An error occurred'', Fields = None\<rparr>"]
        validateLogMessage_required_fields
          [of "\<lparr>Timestamp = ''2024-05-01T10:00:00Z'', Level = ''Error'',
                 MessageTemplate = [], Fields = Some [''userID'' \<mapsto> VString ''12345'']\<rparr>"]
  by simp

text \<open>
  C10. \<open>Log\<close> sets the timestamp itself, to the RFC 3339 text of the clock reading,
  which is never empty; so the entry it builds fails validation, and the call returns
  without a send, exactly when the level or the message given by the caller is empty.
\<close>

theorem Log_timestamp_always_set:
  "Timestamp (Log_message now level message flds) = Format_RFC3339 now \<and>
   Format_RFC3339 now \<noteq> [] \<and>
   (validateLogMessage (Log_message now level message flds) \<noteq> None)
     = (level = [] \<or> message = []) \<and>
   (snd (Log now level message flds) = None) = (level = [] \<or> message = [])"
  using Format_RFC3339_nonempty [of now]
  by (auto simp: Log_def Log_message_def validateLogMessage_def Let_def)

theorem Log_timestamp_always_set_witness:
  "Timestamp (Log_message demo_time ''Error'' [] None) = ''2024-05-01T10:00:00Z'' \<and>
   validateLogMessage (Log_message demo_time ''Error'' [] None) \<noteq> None \<and>
   snd (Log demo_time ''Error'' [] None) = None \<and>
   validateLogMessage (Log_message demo_time ''Error'' ''An error occurred'' None) = None \<and>
   snd (Log demo_time ''Error'' ''An error occurred'' None) \<noteq> None"
proof -
  have f: "Format_RFC3339 demo_time = ''2024-05-01T10:00:00Z''"
    by code_simp
  from Log_timestamp_always_set [of demo_time "''Error''" "[]" None]
       Log_timestamp_always_set [of demo_time "''Error''" "''An error occurred''" None] f
  show ?thesis by simp
qed

section \<open>One iteration of the loop body\<close>



text \<open>
  C5. Every request that the worker builds is a POST with the header
  \<open>Content-Type: application/json\<close>; it has the header \<open>X-Seq-ApiKey\<close>, with the
  configured key as its value, exactly when that key is not empty, and no other header.
\<close>

theorem request_headers:
  "snd (prepare lib l m) = Some req \<Longrightarrow>
   Method req = ''POST'' \<and>
   Header_Values (Header req) ''Content-Type'' = Some [''application/json''] \<and>
   Header_Values (Header req) ''X-Seq-ApiKey'' = (if apiKey l = [] then None else Some [apiKey l]) \<and>
   dom (Header req) = (if apiKey l = [] then {''Content-Type''} else {''Content-Type'', ''X-Seq-Apikey''})"
  by (drule prepare_Some)
     (auto simp: Header_Values_def canonical_Content_Type canonical_X_Seq_ApiKey
        split: if_splits)

theorem request_headers_witness:
  "snd (prepare (demo_lib True True) (logger demo_system) demo_message)
     = Some (demo_request ''YourAPIKey'') \<and>
   Header_Values (Header (demo_request ''YourAPIKey'')) ''Content-Type''
     = Some [''application/json''] \<and>
   Header_Values (Header (demo_request ''YourAPIKey'')) ''X-Seq-ApiKey'' = Some [''YourAPIKey''] \<and>
   snd (prepare (demo_lib True True) ((logger demo_system)\<lparr>apiKey := []\<rparr>) demo_message)
     = Some (demo_request []) \<and>
   Header_Values (Header (demo_request [])) ''Content-Type'' = Some [''application/json''] \<and>
   Header_Values (Header (demo_request [])) ''X-Seq-ApiKey'' = None"
proof -
  have p1: "snd (prepare (demo_lib True True) (logger demo_system) demo_message)
              = Some (demo_request ''YourAPIKey'')"
    by (simp add: demo_prepare)
  have p2: "snd (prepare (demo_lib True True) ((logger demo_system)\<lparr>apiKey := []\<rparr>) demo_message)
              = Some (demo_request [])"
    by (simp add: demo_prepare_no_key)
  have k: "apiKey (logger demo_system) = ''YourAPIKey''"
    by (simp add: demo_system_def started_def)
  from request_headers [OF p1] request_headers [OF p2] p1 p2 k
  show ?thesis by simp
qed

text \<open>
  C6. On each failure path (validation in \<open>Log\<close>; marshalling, request construction,
  transport and a status other than 200 in the worker) the lines printed are the
  message of that failure followed by the line \<open>Local log: <level> - <message template>\<close>
  of the lost entry.
\<close>

theorem failure_reports_level_and_message:
  "(validateLogMessage (Log_message now level message flds) = Some err \<longrightarrow>
      Log now level message flds =
        ([''Validation failed for log message: '' @ Error_msg err,
          ''Local log: '' @ level @ '' - '' @ message], None)) \<and>
   (json_Marshal lib (payload m) = Inl err \<longrightarrow>
      console (iteration lib net m s) =
        console s @ [''Failed to marshal log message: '' @ Error_msg err, local_log m]) \<and>
   (json_Marshal lib (payload m) = Inr data \<and>
    http_NewRequest lib ''POST'' (seqURL (logger s)) data = Inl err \<longrightarrow>
      console (iteration lib net m s) =
        console s @ [''Failed to create HTTP request: '' @ Error_msg err, local_log m]) \<and>
   (snd (prepare lib (logger s) m) = Some req \<and> net (returned s) req = Inl err \<longrightarrow>
      console (iteration lib net m s) =
        console s @ [''Failed to send log message: '' @ Error_msg err, local_log m]) \<and>
   (snd (prepare lib (logger s) m) = Some req \<and> net (returned s) req = Inr resp \<and>
    StatusCode resp \<noteq> 200 \<longrightarrow>
      console (iteration lib net m s) =
        console s @ [''SEQ server responded with '' @ Status resp @ ''. Response: '' @ Body resp,
                     local_log m]) \<and>
   local_log m = ''Local log: '' @ Level m @ '' - '' @ MessageTemplate m"
  apply (intro conjI impI)
       apply (simp add: Log_def Log_message_def local_log_def Let_def)
      apply (simp add: iteration_console prepare_def)
     apply (simp add: iteration_console prepare_def)
    apply (cases "prepare lib (logger s) m")
    apply (auto simp: iteration_console finish_def prepare_def Let_def split: sum.splits)[1]
   apply (cases "prepare lib (logger s) m")
   apply (auto simp: iteration_console finish_def prepare_def Let_def split: sum.splits)[1]
  apply (simp add: local_log_def)
  done

theorem failure_reports_level_and_message_witness:
  "Log demo_time ''Error'' [] None =
     ([''Validation failed for log message: missing required log message fields'',
       ''Local log: Error - ''], None) \<and>
   console (iteration (demo_lib False True) (\<lambda>n req. Inr (demo_response 200))
              demo_message demo_system) =
     [''Failed to marshal log message: json: unsupported type'',
      ''Local log: Information - Application started''] \<and>
   console (iteration (demo_lib True False) (\<lambda>n req. Inr (demo_response 200))
              demo_message demo_system) =
     [''Failed to create HTTP request: parse: invalid URL'',
      ''Local log: Information - Application started''] \<and>
   console (iteration (demo_lib True True) (\<lambda>n req. Inl (GoError ''connection refused''))
              demo_message demo_system) =
     [''Failed to send log message: connection refused'',
      ''Local log: Information - Application started''] \<and>
   console (iteration (demo_lib True True) (\<lambda>n req. Inr (demo_response 500))
              demo_message demo_system) =
     [''SEQ server responded with 500 Internal Server Error. Response: storage unavailable'',
      ''Local log: Information - Application started'']"
proof -
  have v: "validateLogMessage (Log_message demo_time ''Error'' [] None)
             = Some (GoError ''missing required log message fields'')"
    by (simp add: validateLogMessage_def Log_message_def)
  have m: "json_Marshal (demo_lib False True) (payload demo_message)
             = Inl (GoError ''json: unsupported type'')"
    by (simp add: demo_lib_def)
  have u: "json_Marshal (demo_lib True False) (payload demo_message) = Inr demo_body \<and>
           http_NewRequest (demo_lib True False) ''POST'' (seqURL (logger demo_system)) demo_body
             = Inl (GoError ''parse: invalid URL'')"
    by (simp add: demo_lib_def http_NewRequest_def)
  have p: "snd (prepare (demo_lib True True) (logger demo_system) demo_message)
             = Some (demo_request ''YourAPIKey'')"
    by (simp add: demo_prepare)
  have c: "console demo_system = []"
    by (simp add: demo_system_def started_def)
  have l: "Level demo_message = ''Information'' \<and>
           MessageTemplate demo_message = ''Application started''"
    by (simp add: demo_message_def)
  have r: "StatusCode (demo_response 500) \<noteq> 200 \<and>
           Status (demo_response 500) = ''500 Internal Server Error'' \<and>
           Body (demo_response 500) = ''storage unavailable''"
    by (simp add: demo_response_def)
  note f = failure_reports_level_and_message
  from f [of demo_time "''Error''" "[]" None "GoError ''missing required log message fields''"] v
  have 1: "Log demo_time ''Error'' [] None =
     ([''Validation failed for log message: missing required log message fields'',
       ''Local log: Error - ''], None)"
    by simp
  from f [of _ _ _ _ "GoError ''json: unsupported type''" "demo_lib False True" demo_message
            "\<lambda>n req. Inr (demo_response 200)" demo_system] m c l
  have 2: "console (iteration (demo_lib False True) (\<lambda>n req. Inr (demo_response 200))
              demo_message demo_system) =
     [''Failed to marshal log message: json: unsupported type'',
      ''Local log: Information - Application started'']"
    by simp
  from f [of _ _ _ _ "GoError ''parse: invalid URL''" "demo_lib True False" demo_message
            "\<lambda>n req. Inr (demo_response 200)" demo_system demo_body] u c l
  have 3: "console (iteration (demo_lib True False) (\<lambda>n req. Inr (demo_response 200))
              demo_message demo_system) =
     [''Failed to create HTTP request: parse: invalid URL'',
      ''Local log: Information - Application started'']"
    by simp
  from f [of _ _ _ _ "GoError ''connection refused''" "demo_lib True True" demo_message
            "\<lambda>n req. Inl (GoError ''connection refused'')" demo_system _
            "demo_request ''YourAPIKey''"] p c l
  have 4: "console (iteration (demo_lib True True) (\<lambda>n req. Inl (GoError ''connection refused''))
              demo_message demo_system) =
     [''Failed to send log message: connection refused'',
      ''Local log: Information - Application started'']"
    by simp
  from f [of _ _ _ _ _ "demo_lib True True" demo_message
            "\<lambda>n req. Inr (demo_response 500)" demo_system _
            "demo_request ''YourAPIKey''" "demo_response 500"] p c l r
  have 5: "console (iteration (demo_lib True True) (\<lambda>n req. Inr (demo_response 500))
              demo_message demo_system) =
     [''SEQ server responded with 500 Internal Server Error. Response: storage unavailable'',
      ''Local log: Information - Application started'']"
    by simp
  from 1 2 3 4 5 show ?thesis by blast
qed

section \<open>The running dispatcher\<close>

text \<open>
  C3. A call of \<open>Log\<close> whose entry fails validation prints its two lines and returns
  without a send: the producers at the send statement, the channel, its history and the
  wire stay as they were. In every state the dispatcher reaches, each entry held by a
  producer at the send statement, queued in the channel, received by the worker or
  sent in a request has passed validation.
\<close>

theorem invalid_entries_never_enqueued:
  "(validateLogMessage (Log_message now level message flds) \<noteq> None \<longrightarrow>
      snd (Log now level message flds) = None \<and>
      senders (Log_call now level message flds s) = senders s \<and>
      chan_buf (Log_call now level message flds s) = chan_buf s \<and>
      enqueued (Log_call now level message flds s) = enqueued s \<and>
      wire (Log_call now level message flds s) = wire s \<and>
      console (Log_call now level message flds s) =
        console s @ [''Validation failed for log message: missing required log message fields'',
                     ''Local log: '' @ level @ '' - '' @ message]) \<and>
   (NewSEQLogger url key bufferSize = Some s0 \<and> reachable lib s0 t \<longrightarrow>
      list_all (\<lambda>m. validateLogMessage m = None)
        (senders t @ chan_buf t @ enqueued t @ received t @ map fst (wire t)))"
proof (intro conjI impI)
  assume r: "NewSEQLogger url key bufferSize = Some s0 \<and> reachable lib s0 t"
  have i: "invariant lib url key (nat bufferSize) t"
    using r by (blast intro: NewSEQLogger_invariant)
  then have "list_all (\<lambda>m. validateLogMessage m = None) (senders t @ enqueued t)"
    and e: "enqueued t = received t @ chan_buf t"
    and w: "wire t = sends lib (logger t) (received t)"
    unfolding invariant_def by blast+
  moreover have "set (map fst (wire t)) \<subseteq> set (received t)"
    using fst_sends_subset [of lib "logger t" "received t"] by (simp add: w)
  ultimately show "list_all (\<lambda>m. validateLogMessage m = None)
        (senders t @ chan_buf t @ enqueued t @ received t @ map fst (wire t))"
    by (auto simp: list_all_iff)
qed (simp_all add: Log_call_invalid chan_other_fields, simp add: Log_def Let_def split: option.splits)

theorem invalid_entries_never_enqueued_witness:
  "validateLogMessage (Log_message demo_time ''Error'' [] None) \<noteq> None \<and>
   snd (Log demo_time ''Error'' [] None) = None \<and>
   senders (Log_call demo_time ''Error'' [] None demo_full) = [demo_message] \<and>
   chan_buf (Log_call demo_time ''Error'' [] None demo_full) = [demo_message] \<and>
   wire (Log_call demo_time ''Error'' [] None demo_full) = [] \<and>
   console (Log_call demo_time ''Error'' [] None demo_full) =
     [''Validation failed for log message: missing required log message fields'',
      ''Local log: Error - ''] \<and>
   NewSEQLogger ''http://localhost:5341/api/events/raw'' ''YourAPIKey'' 1 = Some demo_system \<and>
   reachable (demo_lib True True) demo_system demo_sending \<and>
   list_all (\<lambda>m. validateLogMessage m = None)
     (senders demo_sending @ chan_buf demo_sending @ enqueued demo_sending @
      received demo_sending @ map fst (wire demo_sending))"
proof -
  have v: "validateLogMessage (Log_message demo_time ''Error'' [] None) \<noteq> None"
    by (simp add: validateLogMessage_def Log_message_def)
  have f: "senders demo_full = [demo_message]" "chan_buf demo_full = [demo_message]"
    "wire demo_full = []" "console demo_full = []"
    by (simp_all add: demo_full_def chan_buf_def)
  from invalid_entries_never_enqueued
         [of demo_time "''Error''" "[]" None demo_full
            "''http://localhost:5341/api/events/raw''" "''YourAPIKey''" 1 demo_system
            "demo_lib True True" demo_sending]
       v demo_NewSEQLogger demo_sending_reachable f
  show ?thesis by simp
qed

text \<open>
  C7. In every state the dispatcher reaches, the worker has received the entries in the
  order in which they were put on the channel, and the requests on the wire are, in
  that order, those of the received entries for which a request could be built. The
  calls of \<open>client.Do\<close> that have started are at most one more than those that have
  returned, and a step puts a new request on the wire, after all earlier ones, only
  when none is in flight, that is when every earlier call has returned.
\<close>

theorem sends_follow_enqueue_order:
  "NewSEQLogger url key bufferSize = Some s0 \<Longrightarrow> reachable lib s0 s \<Longrightarrow>
     enqueued s = received s @ chan_buf s \<and>
     wire s = sends lib (logger s) (received s) \<and>
     map fst (wire s) = filter (\<lambda>m. snd (prepare lib (logger s) m) \<noteq> None) (received s) \<and>
     length (wire s) = returned s + in_flight s \<and>
     returned s \<le> length (wire s) \<and> length (wire s) \<le> returned s + 1 \<and>
     (\<forall>s'. step lib s s' \<longrightarrow>
        wire s' = wire s \<or>
        (in_flight s = 0 \<and> (\<exists>m req. wire s' = wire s @ [(m, req)] \<and> worker s' = Sending m req)))"
proof -
  assume "NewSEQLogger url key bufferSize = Some s0" and "reachable lib s0 s"
  then have i: "invariant lib url key (nat bufferSize) s" by (rule NewSEQLogger_invariant)
  from i have e: "enqueued s = received s @ chan_buf s"
    and w: "wire s = sends lib (logger s) (received s)"
    and l: "length (wire s) = returned s + in_flight s"
    unfolding invariant_def by blast+
  have m: "map fst (wire s) = filter (\<lambda>m. snd (prepare lib (logger s) m) \<noteq> None) (received s)"
    by (simp add: w map_fst_sends)
  have f: "in_flight s \<le> 1" by (simp add: in_flight_def split: worker.splits)
  from l f have b: "returned s \<le> length (wire s) \<and> length (wire s) \<le> returned s + 1"
    by simp
  have n: "\<forall>s'. step lib s s' \<longrightarrow>
        wire s' = wire s \<or>
        (in_flight s = 0 \<and> (\<exists>m req. wire s' = wire s @ [(m, req)] \<and> worker s' = Sending m req))"
    using step_wire [of lib s] by blast
  from e w m l b n show ?thesis by blast
qed

theorem sends_follow_enqueue_order_witness:
  "NewSEQLogger ''http://localhost:5341/api/events/raw'' ''YourAPIKey'' 1 = Some demo_system \<and>
   reachable (demo_lib True True) demo_system demo_full \<and>
   step (demo_lib True True) demo_full demo_sending \<and>
   enqueued demo_full = received demo_full @ chan_buf demo_full \<and>
   wire demo_full = sends (demo_lib True True) (logger demo_full) (received demo_full) \<and>
   length (wire demo_full) = returned demo_full + in_flight demo_full \<and>
   in_flight demo_full = 0 \<and>
   wire demo_sending = wire demo_full @ [(demo_message, demo_request ''YourAPIKey'')] \<and>
   worker demo_sending = Sending demo_message (demo_request ''YourAPIKey'')"
proof -
  have r: "reachable (demo_lib True True) demo_system demo_full"
    by (rule demo_full_reachable)
  have w: "wire demo_sending \<noteq> wire demo_full"
    "wire demo_sending = wire demo_full @ [(demo_message, demo_request ''YourAPIKey'')]"
    "worker demo_sending = Sending demo_message (demo_request ''YourAPIKey'')"
    by (simp_all add: demo_sending_def demo_full_def)
  from sends_follow_enqueue_order [OF demo_NewSEQLogger r] demo_receive demo_NewSEQLogger r w
  show ?thesis by auto
qed

text \<open>
  C9. In every state the dispatcher reaches, the channel holds at most as many entries
  as its capacity. A call of \<open>Log\<close> with a valid entry puts the producer at the send
  statement. While the channel is full (and, for capacity 0, the worker is not ready to
  receive) no step completes a send: the producers stay at the send statement, in order,
  and nothing is added to the channel. No step ever loses an entry: one leaves the
  producers only by being put on the channel. When the worker receives, the channel has
  room again, and whenever it has room the send of a waiting producer can complete.
\<close>

theorem full_channel_blocks_producer:
  "NewSEQLogger url key bufferSize = Some s0 \<Longrightarrow> reachable lib s0 s \<Longrightarrow>
     chan_cap s = nat bufferSize \<and> length (chan_buf s) \<le> chan_cap s \<and>
     (validateLogMessage (Log_message now level message flds) = None \<longrightarrow>
        senders (Log_call now level message flds s)
          = senders s @ [Log_message now level message flds]) \<and>
     (\<forall>s'. step lib s s' \<and> length (chan_buf s) = chan_cap s \<and>
           (chan_buf s \<noteq> [] \<or> worker s \<noteq> Receiving) \<longrightarrow>
        enqueued s' = enqueued s \<and> (\<exists>new. senders s' = senders s @ new)) \<and>
     (\<forall>s' m. step lib s s' \<longrightarrow>
        count_list (senders s) m + count_list (enqueued s) m
          \<le> count_list (senders s') m + count_list (enqueued s') m) \<and>
     (\<forall>m rest. worker s = Receiving \<and> chan_buf s = m # rest \<longrightarrow>
        step lib s (begin_iteration lib m (set_buf rest s)) \<and>
        length (chan_buf (begin_iteration lib m (set_buf rest s))) < chan_cap s) \<and>
     (\<forall>m. m \<in> set (senders s) \<and> length (chan_buf s) < chan_cap s \<longrightarrow>
        step lib s (set_buf (chan_buf s @ [m])
                     (s\<lparr>senders := remove1 m (senders s), enqueued := enqueued s @ [m]\<rparr>)))"
proof -
  assume "NewSEQLogger url key bufferSize = Some s0" and "reachable lib s0 s"
  then have "invariant lib url key (nat bufferSize) s" by (rule NewSEQLogger_invariant)
  then have c: "chan_cap s = nat bufferSize" and b: "length (chan_buf s) \<le> chan_cap s"
    unfolding invariant_def by simp_all
  have 1: "validateLogMessage (Log_message now level message flds) = None \<longrightarrow>
        senders (Log_call now level message flds s)
          = senders s @ [Log_message now level message flds]"
    by (simp add: Log_call_valid)
  have 2: "\<forall>s'. step lib s s' \<and> length (chan_buf s) = chan_cap s \<and>
           (chan_buf s \<noteq> [] \<or> worker s \<noteq> Receiving) \<longrightarrow>
        enqueued s' = enqueued s \<and> (\<exists>new. senders s' = senders s @ new)"
  proof (intro allI impI)
    fix s'
    assume "step lib s s' \<and> length (chan_buf s) = chan_cap s \<and>
           (chan_buf s \<noteq> [] \<or> worker s \<noteq> Receiving)"
    then show "enqueued s' = enqueued s \<and> (\<exists>new. senders s' = senders s @ new)"
      using step_blocked [of lib s s'] by simp
  qed
  have 3: "\<forall>s' m. step lib s s' \<longrightarrow>
        count_list (senders s) m + count_list (enqueued s) m
          \<le> count_list (senders s') m + count_list (enqueued s') m"
    using step_senders by blast
  have 4: "\<forall>m rest. worker s = Receiving \<and> chan_buf s = m # rest \<longrightarrow>
        step lib s (begin_iteration lib m (set_buf rest s)) \<and>
        length (chan_buf (begin_iteration lib m (set_buf rest s))) < chan_cap s"
    using b by (auto intro: step.chan_receive simp: begin_iteration_fields set_buf_fields)
  have 5: "\<forall>m. m \<in> set (senders s) \<and> length (chan_buf s) < chan_cap s \<longrightarrow>
        step lib s (set_buf (chan_buf s @ [m])
                     (s\<lparr>senders := remove1 m (senders s), enqueued := enqueued s @ [m]\<rparr>))"
    by (auto intro: step.chan_send)
  from c b 1 2 3 4 5 show ?thesis by blast
qed

theorem full_channel_blocks_producer_witness:
  "NewSEQLogger ''http://localhost:5341/api/events/raw'' ''YourAPIKey'' 1 = Some demo_system \<and>
   reachable (demo_lib True True) demo_system demo_full \<and>
   step (demo_lib True True) demo_full demo_sending \<and>
   chan_cap demo_full = 1 \<and> chan_buf demo_full = [demo_message] \<and>
   senders demo_full = [demo_message] \<and> worker demo_full = Receiving \<and>
   enqueued demo_sending = enqueued demo_full \<and>
   (\<exists>new. senders demo_sending = senders demo_full @ new) \<and>
   validateLogMessage (Log_message demo_time ''Error'' ''An error occurred'' None) = None \<and>
   senders (Log_call demo_time ''Error'' ''An error occurred'' None demo_full)
     = [demo_message, Log_message demo_time ''Error'' ''An error occurred'' None] \<and>
   step (demo_lib True True) demo_full
     (begin_iteration (demo_lib True True) demo_message (set_buf [] demo_full)) \<and>
   length (chan_buf (begin_iteration (demo_lib True True) demo_message (set_buf [] demo_full))) < 1 \<and>
   reachable (demo_lib True True) demo_system demo_sending \<and>
   chan_buf demo_sending = [] \<and> senders demo_sending = [demo_message] \<and>
   step (demo_lib True True) demo_sending
     (set_buf [demo_message]
        (demo_sending\<lparr>senders := [], enqueued := [demo_message, demo_message]\<rparr>))"
proof -
  have r: "reachable (demo_lib True True) demo_system demo_full"
    by (rule demo_full_reachable)
  have f: "chan_cap demo_full = 1" "chan_buf demo_full = [demo_message]"
    "senders demo_full = [demo_message]" "worker demo_full = Receiving"
    by (simp_all add: demo_full_def chan_buf_def chan_cap_def)
  have g: "chan_cap demo_sending = 1" "chan_buf demo_sending = []"
    "senders demo_sending = [demo_message]" "enqueued demo_sending = [demo_message]"
    by (simp_all add: demo_sending_def chan_buf_def chan_cap_def)
  have v: "validateLogMessage (Log_message demo_time ''Error'' ''An error occurred'' None) = None"
    by (simp add: validateLogMessage_def Log_message_def Format_RFC3339_nonempty)
  from full_channel_blocks_producer
         [OF demo_NewSEQLogger r, of demo_time "''Error''" "''An error occurred''" None]
       f v demo_receive
  have 1: "enqueued demo_sending = enqueued demo_full \<and>
   (\<exists>new. senders demo_sending = senders demo_full @ new) \<and>
   senders (Log_call demo_time ''Error'' ''An error occurred'' None demo_full)
     = [demo_message, Log_message demo_time ''Error'' ''An error occurred'' None] \<and>
   step (demo_lib True True) demo_full
     (begin_iteration (demo_lib True True) demo_message (set_buf [] demo_full)) \<and>
   length (chan_buf (begin_iteration (demo_lib True True) demo_message (set_buf [] demo_full))) < 1"
    by auto
  from full_channel_blocks_producer [OF demo_NewSEQLogger demo_sending_reachable] g
  have 2: "step (demo_lib True True) demo_sending
     (set_buf [demo_message]
        (demo_sending\<lparr>senders := [], enqueued := [demo_message, demo_message]\<rparr>))"
    by auto
  from demo_NewSEQLogger r demo_receive demo_sending_reachable f g v 1 2
  show ?thesis by simp
qed

section \<open>The worker loop\<close>



text \<open>
  C8. Two entries, both answered with status 200. At the end of the first pass of the
  loop body the first response body is open, and it is still open while the worker is
  inside \<open>client.Do\<close> for the second entry; after the second pass both are open. They
  are closed only when \<open>processLogs\<close> returns.
\<close>

theorem response_bodies_stay_open:
  "open_bodies (iteration (demo_lib True True) (\<lambda>n req. Inr (demo_response 200))
                  demo_message demo_system) = [demo_response 200] \<and>
   worker (begin_iteration (demo_lib True True) demo_message
            (iteration (demo_lib True True) (\<lambda>n req. Inr (demo_response 200))
               demo_message demo_system))
     = Sending demo_message (demo_request ''YourAPIKey'') \<and>
   open_bodies (begin_iteration (demo_lib True True) demo_message
            (iteration (demo_lib True True) (\<lambda>n req. Inr (demo_response 200))
               demo_message demo_system)) = [demo_response 200] \<and>
   open_bodies (range_loop (demo_lib True True) (\<lambda>n req. Inr (demo_response 200))
                  [demo_message, demo_message] demo_system)
     = [demo_response 200, demo_response 200] \<and>
   open_bodies (processLogs (demo_lib True True) (\<lambda>n req. Inr (demo_response 200))
                  [demo_message, demo_message] demo_system) = []"
proof -
  let ?lib = "demo_lib True True" and ?net = "\<lambda>(n::nat) (req::request). Inr (demo_response 200) :: go_error + response"
  let ?s1 = "iteration ?lib ?net demo_message demo_system"
  let ?s2 = "iteration ?lib ?net demo_message ?s1"
  have o0: "open_bodies demo_system = []" "deferred demo_system = []"
    by (simp_all add: demo_system_def started_def)
  have l1: "logger ?s1 = logger demo_system" by (simp add: iteration_fields)
  have o1: "open_bodies ?s1 = [demo_response 200]" "deferred ?s1 = [demo_response 200]"
    by (simp_all add: iteration_open_bodies iteration_deferred demo_prepare demo_finish_200 o0)
  have o2: "open_bodies ?s2 = [demo_response 200, demo_response 200]"
    "deferred ?s2 = [demo_response 200, demo_response 200]"
    by (simp_all add: iteration_open_bodies iteration_deferred iteration_fields demo_prepare
          demo_finish_200 o0)
  have b: "worker (begin_iteration ?lib demo_message ?s1)
             = Sending demo_message (demo_request ''YourAPIKey'')"
    "open_bodies (begin_iteration ?lib demo_message ?s1) = [demo_response 200]"
    by (simp_all add: begin_iteration_fields l1 demo_prepare o1 del: One_nat_def)
  have r: "range_loop ?lib ?net [demo_message, demo_message] demo_system = ?s2"
    by simp
  have p: "open_bodies (processLogs ?lib ?net [demo_message, demo_message] demo_system) = []"
    by (simp add: processLogs_def run_deferred_def close_body_def o2 del: range_loop.simps add: r)
  from o1 b o2 r p show ?thesis by simp
qed

end
